theory Spec2Isabelle
  imports Main
begin

section \<open>Strings and paths\<close>

text \<open>
  The three functions of Go's \<open>strings\<close> package that \<open>compileTemplates\<close> calls, for a
  separator of one byte (the source always passes \<open>"."\<close>). \<open>Index\<close> is \<open>-1\<close> when the
  byte does not occur; \<open>Split\<close> of a string without the separator is the one-element
  list holding the string.
\<close>

fun Index :: "string \<Rightarrow> char \<Rightarrow> int" where
  "Index [] c = - 1"
| "Index (x # xs) c =
     (if x = c then 0 else (let i = Index xs c in if i = - 1 then - 1 else i + 1))"

fun Split :: "string \<Rightarrow> char \<Rightarrow> string list" where
  "Split [] c = [[]]"
| "Split (x # xs) c =
     (if x = c then [] # Split xs c
      else (case Split xs c of [] \<Rightarrow> [[x]] | p # ps \<Rightarrow> (x # p) # ps))"

fun Join :: "string list \<Rightarrow> string \<Rightarrow> string" where
  "Join [] s = []"
| "Join [p] s = p"
| "Join (p # q # ps) s = p @ s @ Join (q # ps) s"

text \<open>
  \<open>filepath.ToSlash\<close>: the platform's separator \<open>sep\<close> (\<open>/\<close> on Unix, a backslash on
  Windows) is a parameter of the model.
\<close>

definition ToSlash :: "char \<Rightarrow> string \<Rightarrow> string" where
  "ToSlash sep path =
     (if sep = CHR ''/'' then path
      else map (\<lambda>c. if c = sep then CHR ''/'' else c) path)"

text \<open>
  Lines 176 to 179 of \<open>compileTemplates\<close>: the extension of a root-relative path, and
  line 189: the relative path without it.
\<close>

definition ext_of :: "string \<Rightarrow> string" where
  "ext_of rel =
     (if Index rel (CHR ''.'') \<noteq> - 1
      then ''.'' @ Join (drop 1 (Split rel (CHR ''.''))) ''.''
      else [])"

definition name_of :: "string \<Rightarrow> string \<Rightarrow> string" where
  "name_of rel ext = take (length rel - length ext) rel"

section \<open>The file system\<close>

text \<open>
  \<open>filepath.Walk\<close> hands the callback every entry below the root, directories included,
  in lexical order. The model takes the walk as the list of its entries, each given by
  its root-relative path (what \<open>filepath.Rel\<close> returns for it) and by what the path
  holds. Reading a directory fails, as \<open>ioutil.ReadFile\<close> does.
\<close>

type_synonym error = string

datatype fnode = File string | Dir

type_synonym entry = "string \<times> fnode"

definition ReadFile :: "entry \<Rightarrow> error + string" where
  "ReadFile e =
     (case snd e of
        File buf \<Rightarrow> Inr buf
      | Dir \<Rightarrow> Inl (''read '' @ fst e @ '': is a directory''))"

section \<open>A fragment of html/template\<close>

text \<open>
  The template engine is a library outside the repository. The model covers the fragment
  the renderer's own behaviour shows in: literal text, the actions \<open>{{.}}\<close> and
  \<open>{{.Field}}\<close>, and the call of a function without arguments, \<open>{{f}}\<close>. Any other
  action is outside the fragment and is rejected by \<open>parse_action\<close>. Error messages
  carry no line and column.

  A function of a \<open>FuncMap\<close> that takes no argument and reads no state is the constant
  it returns: \<open>Const (Inr v)\<close> returns \<open>v\<close> and a nil error, \<open>Const (Inl e)\<close> returns
  the error \<open>e\<close>. The closure that \<open>addYield\<close> builds reads the renderer, so it is kept
  as \<open>Yield name binding\<close> and run by the executor. A value is a plain \<open>string\<close>, which
  the engine escapes, or a \<open>template.HTML\<close>, which it emits as it is.
\<close>

datatype binding = BString string | BStruct "(string \<times> string) list"

datatype val = Plain string | Safe string

datatype func = Const "error + val" | Yield string binding

type_synonym FuncMap = "(string \<times> func) list"

datatype node = Text string | Dot | Field string | Call string

record Template =
  tname :: string
  tleft :: string
  tright :: string
  tfuncs :: FuncMap
  tunits :: "(string \<times> node list) list"

text \<open>
  \<open>template.New\<close>, the method \<open>New\<close> of a set, \<open>Delims\<close>, \<open>Funcs\<close> and \<open>Lookup\<close>.
  The function table is shared by every template of a set, and a later \<open>Funcs\<close>
  overrides an earlier one name by name: the table is an association list read with
  \<open>map_of\<close>, the newest entries in front. \<open>tunits\<close> holds the units that have a
  parsed body. The engine also keeps names without one (the root of the set, a template
  created by \<open>New\<close> and not yet parsed); they cannot be executed and are not units
  here. \<open>New\<close> on a set takes the name over: a unit the set held under it is gone.
\<close>

definition template_New :: "string \<Rightarrow> Template" where
  "template_New nm = \<lparr>tname = nm, tleft = [], tright = [], tfuncs = [], tunits = []\<rparr>"

definition Template_New :: "Template \<Rightarrow> string \<Rightarrow> Template" where
  "Template_New t nm = t\<lparr>tunits := filter (\<lambda>p. fst p \<noteq> nm) (tunits t)\<rparr>"

definition template_Delims :: "Template \<Rightarrow> string \<Rightarrow> string \<Rightarrow> Template" where
  "template_Delims t l r = t\<lparr>tleft := l, tright := r\<rparr>"

definition template_Funcs :: "Template \<Rightarrow> FuncMap \<Rightarrow> Template" where
  "template_Funcs t m = t\<lparr>tfuncs := m @ tfuncs t\<rparr>"

definition Lookup :: "Template \<Rightarrow> string \<Rightarrow> node list option" where
  "Lookup t nm = map_of (tunits t) nm"

definition lookup_func :: "Template \<Rightarrow> string \<Rightarrow> func option" where
  "lookup_func t f = map_of (tfuncs t) f"

subsection \<open>Parsing\<close>

fun find_sub :: "string \<Rightarrow> string \<Rightarrow> (string \<times> string) option" where
  "find_sub d [] = (if d = [] then Some ([], []) else None)"
| "find_sub d (c # cs) =
     (if take (length d) (c # cs) = d then Some ([], drop (length d) (c # cs))
      else map_option (\<lambda>(b, a). (c # b, a)) (find_sub d cs))"

definition trim :: "string \<Rightarrow> string" where
  "trim s = rev (dropWhile (\<lambda>c. c = CHR '' '') (rev (dropWhile (\<lambda>c. c = CHR '' '') s)))"

definition is_ident :: "string \<Rightarrow> bool" where
  "is_ident s =
     (s \<noteq> [] \<and>
      list_all (\<lambda>c. List.member ''abcdefghijklmnopqrstuvwxyzABCDEFGHIJKLMNOPQRSTUVWXYZ_0123456789'' c) s)"

definition parse_action :: "string \<Rightarrow> error + node" where
  "parse_action a =
     (let s = trim a in
      if s = ''.'' then Inr Dot
      else if take 1 s = ''.'' \<and> is_ident (drop 1 s) then Inr (Field (drop 1 s))
      else if is_ident s then Inr (Call s)
      else Inl (''unexpected <'' @ s @ ''> in command''))"

definition text_node :: "string \<Rightarrow> node list" where
  "text_node s = (if s = [] then [] else [Text s])"

function parse_nodes :: "string \<Rightarrow> string \<Rightarrow> string \<Rightarrow> error + node list" where
  "parse_nodes l r s =
     (if l = [] \<or> r = [] then Inl ''empty delimiter''
      else
        (case find_sub l s of
           None \<Rightarrow> Inr (text_node s)
         | Some (b, a) \<Rightarrow>
            (case find_sub r a of
               None \<Rightarrow> Inl ''unclosed action''
             | Some (act, rest) \<Rightarrow>
                (case parse_action act of
                   Inl e \<Rightarrow> Inl e
                 | Inr nd \<Rightarrow>
                    (case parse_nodes l r rest of
                       Inl e \<Rightarrow> Inl e
                     | Inr ns \<Rightarrow> Inr (text_node b @ nd # ns))))))"
  by pat_completeness auto

termination parse_nodes
proof -
  have len: "length a + length d \<le> length s" if "find_sub d s = Some (b, a)" for d s b a
    using that
  proof (induction s arbitrary: b a)
    case Nil
    then show ?case by (simp split: if_splits)
  next
    case (Cons c cs)
    show ?case
    proof (cases "take (length d) (c # cs) = d")
      case True
      then have "length (take (length d) (c # cs)) = length d"
        by simp
      then have "length d \<le> length (c # cs)"
        by (simp only: length_take)
      with True Cons.prems show ?thesis by auto
    next
      case False
      with Cons.prems obtain b' where "find_sub d cs = Some (b', a)"
        by (auto split: prod.splits)
      from Cons.IH [OF this] show ?thesis by simp
    qed
  qed
  show ?thesis
  proof (relation "measure (\<lambda>(l, r, s). length s)", goal_cases)
    case 1
    show ?case by simp
  next
    case (2 l r s x2 b a x2a act rest x2b)
    then have "length a + length l \<le> length s" "length rest + length r \<le> length a"
      by (auto dest: len)
    moreover from 2 have "l \<noteq> []" by simp
    ultimately show ?case by (cases l) auto
  qed
qed

fun calls :: "node list \<Rightarrow> string list" where
  "calls [] = []"
| "calls (Call f # ns) = f # calls ns"
| "calls (Text s # ns) = calls ns"
| "calls (Dot # ns) = calls ns"
| "calls (Field f # ns) = calls ns"

definition delim_or :: "string \<Rightarrow> string \<Rightarrow> string" where
  "delim_or dflt d = (if d = [] then dflt else d)"

text \<open>
  \<open>New(name)\<close> followed by \<open>Parse\<close> on the new template: the text is parsed under the
  set's delimiters (an empty delimiter stands for the default), every function it names
  must be in the function table at that moment, and the unit is registered under
  \<open>nm\<close>, in front of an older unit of the same name.
\<close>

definition parse_checked :: "Template \<Rightarrow> string \<Rightarrow> string \<Rightarrow> error + node list" where
  "parse_checked t nm src =
     (case parse_nodes (delim_or ''{{'' (tleft t)) (delim_or ''}}'' (tright t)) src of
        Inl e \<Rightarrow> Inl (''template: '' @ nm @ '': '' @ e)
      | Inr ns \<Rightarrow>
         (case find (\<lambda>f. lookup_func t f = None) (calls ns) of
            Some f \<Rightarrow> Inl (''template: '' @ nm @ '': function '' @ f @ '' not defined'')
          | None \<Rightarrow> Inr ns))"

definition Parse :: "Template \<Rightarrow> string \<Rightarrow> string \<Rightarrow> error + Template" where
  "Parse t nm src =
     (case parse_checked t nm src of
        Inl e \<Rightarrow> Inl e
      | Inr ns \<Rightarrow> Inr (t\<lparr>tunits := (nm, ns) # tunits t\<rparr>))"

subsection \<open>Execution\<close>

fun escape_char :: "char \<Rightarrow> string" where
  "escape_char c =
     (if c = CHR ''&'' then ''&amp;''
      else if c = CHR ''<'' then ''&lt;''
      else if c = CHR ''>'' then ''&gt;''
      else if c = CHR 0x22 then ''&#34;''
      else if c = CHR 0x27 then ''&#39;''
      else if c = CHR ''+'' then ''&#43;''
      else [c])"

definition HTMLEscape :: "string \<Rightarrow> string" where
  "HTMLEscape s = concat (map escape_char s)"

fun emit :: "val \<Rightarrow> string" where
  "emit (Plain s) = HTMLEscape s"
| "emit (Safe s) = s"

fun show_binding :: "binding \<Rightarrow> string" where
  "show_binding (BString s) = s"
| "show_binding (BStruct fs) = ''{'' @ Join (map snd fs) '' '' @ ''}''"

fun field :: "binding \<Rightarrow> string \<Rightarrow> string option" where
  "field (BString s) f = None"
| "field (BStruct fs) f = map_of fs f"

definition undefined_msg :: "string \<Rightarrow> error" where
  "undefined_msg nm = ''html/template: '' @ nm @ '' is undefined''"

definition call_msg :: "string \<Rightarrow> string \<Rightarrow> error \<Rightarrow> error" where
  "call_msg nm f e = ''template: '' @ nm @ '': error calling '' @ f @ '': '' @ e"

text \<open>
  The executor writes into the buffer \<open>buf\<close> and returns it with the error, if any:
  what was written before a failure stays in the buffer. A \<open>Yield\<close> closure executes
  another template of the same set, which may call \<open>yield\<close> again without end; the
  fuel \<open>n\<close> bounds the nesting of such calls, and \<open>None\<close> is a run that does not return.
\<close>

fun exec :: "nat \<Rightarrow> Template \<Rightarrow> string \<Rightarrow> binding \<Rightarrow> node list \<Rightarrow> string
    \<Rightarrow> (string \<times> error option) option" where
  "exec n t nm b [] buf = Some (buf, None)"
| "exec n t nm b (Text s # ns) buf = exec n t nm b ns (buf @ s)"
| "exec n t nm b (Dot # ns) buf = exec n t nm b ns (buf @ HTMLEscape (show_binding b))"
| "exec n t nm b (Field f # ns) buf =
     (case field b f of
        None \<Rightarrow> Some (buf, Some (''template: '' @ nm @ '': can't evaluate field '' @ f))
      | Some v \<Rightarrow> exec n t nm b ns (buf @ HTMLEscape v))"
| "exec n t nm b (Call f # ns) buf =
     (case lookup_func t f of
        None \<Rightarrow> Some (buf, Some (''template: '' @ nm @ '': '' @ f @ '' is not a defined function''))
      | Some (Const res) \<Rightarrow>
         (case res of
            Inl e \<Rightarrow> Some (buf, Some (call_msg nm f e))
          | Inr v \<Rightarrow> exec n t nm b ns (buf @ emit v))
      | Some (Yield nm' b') \<Rightarrow>
         (case n of
            0 \<Rightarrow> None
          | Suc m \<Rightarrow>
             (case Lookup t nm' of
                None \<Rightarrow> Some (buf, Some (call_msg nm f (undefined_msg nm')))
              | Some ns' \<Rightarrow>
                 (case exec m t nm' b' ns' [] of
                    None \<Rightarrow> None
                  | Some (out, None) \<Rightarrow> exec n t nm b ns (buf @ out)
                  | Some (out, Some e) \<Rightarrow> Some (buf, Some (call_msg nm f e))))))"

definition ExecuteTemplate :: "nat \<Rightarrow> Template \<Rightarrow> string \<Rightarrow> binding
    \<Rightarrow> (string \<times> error option) option" where
  "ExecuteTemplate n t nm b =
     (case Lookup t nm of
        None \<Rightarrow> Some ([], Some (undefined_msg nm))
      | Some ns \<Rightarrow> exec n t nm b ns [])"

section \<open>The renderer\<close>

record Delims =
  Left :: string
  Right :: string

record Options =
  Directory :: string
  Layout :: string
  Extensions :: "string list"
  Funcs :: "FuncMap list"
  Delims :: Delims
  Charset :: string
  IndentJSON :: bool
  IndentXML :: bool
  PrefixJSON :: string
  PrefixXML :: string
  HTMLContentType :: string
  IsDevelopment :: bool

record HTMLOptions =
  Layout :: string

record Render =
  opt :: Options
  templates :: Template
  compiledCharset :: string

record Head =
  ContentType :: string
  Status :: int

record HTML = Head +
  Name :: string
  Templates :: Template

definition ContentType :: string where
  "ContentType = ''Content-Type''"

definition ContentHTML :: string where
  "ContentHTML = ''text/html''"

definition defaultCharset :: string where
  "defaultCharset = ''UTF-8''"

text \<open>
  The source declares \<open>helperFuncs\<close> twice. The variable beside \<open>compileTemplates\<close>
  (lines 73 to 81) holds \<open>yield\<close> and \<open>current\<close>; it is the table that
  \<open>compileTemplates\<close> passes to \<open>Funcs\<close>, and it keeps the name. The function of
  helpers.go returns the same two entries and \<open>partial\<close>; nothing in the source
  calls it, and it is \<open>helpers_helperFuncs\<close> here.
\<close>

definition helperFuncs :: FuncMap where
  "helperFuncs =
     [(''yield'', Const (Inl ''yield called with no layout defined'')),
      (''current'', Const (Inr (Plain [])))]"

definition helpers_helperFuncs :: FuncMap where
  "helpers_helperFuncs =
     [(''yield'', Const (Inl ''yield called with no layout defined'')),
      (''partial'', Const (Inl ''block called with no layout defined'')),
      (''current'', Const (Inr (Plain [])))]"

definition prepareOptions :: "Render \<Rightarrow> Render" where
  "prepareOptions r =
     (let r1 = (if length (Charset (opt r)) = 0
                then r\<lparr>opt := (opt r)\<lparr>Charset := defaultCharset\<rparr>\<rparr> else r);
          r2 = r1\<lparr>compiledCharset := ''; charset='' @ Charset (opt r1)\<rparr>;
          r3 = (if length (Directory (opt r2)) = 0
                then r2\<lparr>opt := (opt r2)\<lparr>Directory := ''templates''\<rparr>\<rparr> else r2);
          r4 = (if length (Extensions (opt r3)) = 0
                then r3\<lparr>opt := (opt r3)\<lparr>Extensions := [''.tmpl'']\<rparr>\<rparr> else r3)
      in if length (HTMLContentType (opt r4)) = 0
         then r4\<lparr>opt := (opt r4)\<lparr>HTMLContentType := ContentHTML\<rparr>\<rparr> else r4)"

text \<open>
  A panic unwinds to whoever recovers it; the renderer it leaves behind is the one the
  assignments made so far have produced. So a call ends \<open>Normal\<close> or with
  \<open>Panic e\<close>, and returns the renderer in both cases.
\<close>

datatype completion = Normal | Panic error

text \<open>
  The body of the loop over the extensions once \<open>ext == extension\<close> holds (lines 184
  to 198): read the file, derive the name, create the template of that name in the
  set, apply the user's function maps in order, then \<open>helperFuncs\<close>, then parse;
  \<open>template.Must\<close> panics on a parse error. \<open>at_parse r nm\<close> is the set as the parse
  of the template \<open>nm\<close> finds it (lines 190 to 198, before \<open>Parse\<close>).
\<close>

definition at_parse :: "Render \<Rightarrow> string \<Rightarrow> Template" where
  "at_parse r nm =
     template_Funcs (foldl template_Funcs (Template_New (templates r) nm) (Funcs (opt r)))
       helperFuncs"

definition compileFile :: "char \<Rightarrow> Render \<Rightarrow> entry \<Rightarrow> string \<Rightarrow> completion \<times> Render" where
  "compileFile sep r e ext =
     (case ReadFile e of
        Inl err \<Rightarrow> (Panic err, r)
      | Inr buf \<Rightarrow>
         (let name = name_of (fst e) ext;
              t = at_parse r (ToSlash sep name)
          in case Parse t (ToSlash sep name) buf of
               Inl err \<Rightarrow> (Panic err, r\<lparr>templates := t\<rparr>)
             | Inr t' \<Rightarrow> (Normal, r\<lparr>templates := t'\<rparr>)))"

text \<open>The loop over \<open>r.opt.Extensions\<close>, which breaks at the first match.\<close>

fun tryExtensions :: "char \<Rightarrow> Render \<Rightarrow> entry \<Rightarrow> string \<Rightarrow> string list
    \<Rightarrow> completion \<times> Render" where
  "tryExtensions sep r e ext [] = (Normal, r)"
| "tryExtensions sep r e ext (extension # rest) =
     (if ext = extension then compileFile sep r e ext
      else tryExtensions sep r e ext rest)"

text \<open>The callback given to \<open>filepath.Walk\<close>, and the walk itself.\<close>

definition visit :: "char \<Rightarrow> Render \<Rightarrow> entry \<Rightarrow> completion \<times> Render" where
  "visit sep r e = tryExtensions sep r e (ext_of (fst e)) (Extensions (opt r))"

fun walk :: "char \<Rightarrow> entry list \<Rightarrow> Render \<Rightarrow> completion \<times> Render" where
  "walk sep [] r = (Normal, r)"
| "walk sep (e # es) r =
     (case visit sep r e of
        (Normal, r') \<Rightarrow> walk sep es r'
      | (Panic x, r') \<Rightarrow> (Panic x, r'))"

definition compileTemplates :: "char \<Rightarrow> entry list \<Rightarrow> Render \<Rightarrow> completion \<times> Render" where
  "compileTemplates sep fs r =
     (let dir = Directory (opt r);
          t = template_Delims (template_New dir)
                (Left (Delims (opt r))) (Right (Delims (opt r)))
      in walk sep fs (r\<lparr>templates := t\<rparr>))"

text \<open>
  \<open>New\<close>. The \<open>templates\<close> field of the fresh \<open>Render\<close> is nil in Go;
  \<open>compileTemplates\<close> assigns it before anything reads it, so the model starts it at an
  empty set.
\<close>

definition New :: "char \<Rightarrow> entry list \<Rightarrow> Options \<Rightarrow> completion \<times> Render" where
  "New sep fs options =
     compileTemplates sep fs
       (prepareOptions \<lparr>opt = options, templates = template_New [], compiledCharset = []\<rparr>)"

subsection \<open>The response\<close>

text \<open>
  An \<open>http.ResponseWriter\<close>: the header map, the status code once it is written, the
  body. \<open>WriteHeader\<close> after the first is ignored, \<open>Write\<close> before any \<open>WriteHeader\<close>
  sends 200, and \<open>http.Error\<close> sets two headers, writes the code and prints the
  message and a newline.
\<close>

record ResponseWriter =
  header :: "(string \<times> string) list"
  code :: "int option"
  body :: string

definition Header_Set :: "ResponseWriter \<Rightarrow> string \<Rightarrow> string \<Rightarrow> ResponseWriter" where
  "Header_Set w k v = w\<lparr>header := (k, v) # filter (\<lambda>p. fst p \<noteq> k) (header w)\<rparr>"

definition WriteHeader :: "ResponseWriter \<Rightarrow> int \<Rightarrow> ResponseWriter" where
  "WriteHeader w c = (if code w = None then w\<lparr>code := Some c\<rparr> else w)"

definition Write :: "ResponseWriter \<Rightarrow> string \<Rightarrow> ResponseWriter" where
  "Write w bs = (let w' = WriteHeader w 200 in w'\<lparr>body := body w' @ bs\<rparr>)"

definition http_Error :: "ResponseWriter \<Rightarrow> string \<Rightarrow> int \<Rightarrow> ResponseWriter" where
  "http_Error w msg c =
     Write (WriteHeader
              (Header_Set (Header_Set w ContentType ''text/plain; charset=utf-8'')
                 ''X-Content-Type-Options'' ''nosniff'') c)
       (msg @ [CHR 0x0A])"

subsection \<open>Rendering HTML\<close>

definition execute :: "nat \<Rightarrow> Render \<Rightarrow> string \<Rightarrow> binding \<Rightarrow> (string \<times> error option) option" where
  "execute n r name binding = ExecuteTemplate n (templates r) name binding"

definition addYield :: "Render \<Rightarrow> string \<Rightarrow> binding \<Rightarrow> Render" where
  "addYield r name binding =
     r\<lparr>templates := template_Funcs (templates r)
          [(''yield'', Yield name binding), (''current'', Const (Inr (Plain name)))]\<rparr>"

definition prepareHTMLOptions :: "Render \<Rightarrow> HTMLOptions list \<Rightarrow> HTMLOptions" where
  "prepareHTMLOptions r htmlOpt =
     (case htmlOpt of
        h # rest \<Rightarrow> h
      | [] \<Rightarrow> \<lparr>HTMLOptions.Layout = Options.Layout (opt r)\<rparr>)"

text \<open>
  \<open>(r *Render) HTML\<close>, in the order of its source: the recompilation in development
  mode (lines 264 to 267), the choice of the layout (lines 269 to 275), the execution
  into a buffer of its own, and the response (lines 277 to 286). The file system
  \<open>fs\<close> is what the walk would find at the moment of the call. The result is
  \<open>None\<close> when the execution does not return.
\<close>

definition recompile :: "char \<Rightarrow> entry list \<Rightarrow> Render \<Rightarrow> completion \<times> Render" where
  "recompile sep fs r =
     (if IsDevelopment (opt r) then compileTemplates sep fs r else (Normal, r))"

definition applyLayout :: "Render \<Rightarrow> string \<Rightarrow> binding \<Rightarrow> HTMLOptions list \<Rightarrow> Render \<times> string" where
  "applyLayout r name binding htmlOpt =
     (let opt' = prepareHTMLOptions r htmlOpt
      in if length (HTMLOptions.Layout opt') > 0
         then (addYield r name binding, HTMLOptions.Layout opt')
         else (r, name))"

definition respond :: "Render \<Rightarrow> ResponseWriter \<Rightarrow> int \<Rightarrow> (string \<times> error option) option
    \<Rightarrow> (completion \<times> Render \<times> ResponseWriter) option" where
  "respond r w status res =
     (case res of
        None \<Rightarrow> None
      | Some (out, Some err) \<Rightarrow> Some (Normal, r, http_Error w err 500)
      | Some (out, None) \<Rightarrow>
         Some (Normal, r,
           Write (WriteHeader
                    (Header_Set w ContentType (HTMLContentType (opt r) @ compiledCharset r))
                    status)
             out))"

definition Render_HTML :: "nat \<Rightarrow> char \<Rightarrow> entry list \<Rightarrow> Render \<Rightarrow> ResponseWriter \<Rightarrow> int
    \<Rightarrow> string \<Rightarrow> binding \<Rightarrow> HTMLOptions list
    \<Rightarrow> (completion \<times> Render \<times> ResponseWriter) option" where
  "Render_HTML n sep fs r w status name binding htmlOpt =
     (case recompile sep fs r of
        (Panic x, r1) \<Rightarrow> Some (Panic x, r1, w)
      | (Normal, r1) \<Rightarrow>
         (case applyLayout r1 name binding htmlOpt of
            (r2, name') \<Rightarrow> respond r2 w status (execute n r2 name' binding)))"



text \<open>engine.go: \<open>Head.Write\<close> and \<open>(h HTML) Render\<close>.\<close>

definition Head_Write :: "'a Head_scheme \<Rightarrow> ResponseWriter \<Rightarrow> ResponseWriter" where
  "Head_Write h w = WriteHeader (Header_Set w ContentType (Head.ContentType h)) (Status h)"

definition HTML_Render :: "nat \<Rightarrow> HTML \<Rightarrow> ResponseWriter \<Rightarrow> binding
    \<Rightarrow> (error option \<times> ResponseWriter) option" where
  "HTML_Render n h w binding =
     (case ExecuteTemplate n (Templates h) (Name h) binding of
        None \<Rightarrow> None
      | Some (out, Some err) \<Rightarrow> Some (Some err, w)
      | Some (out, None) \<Rightarrow> Some (None, Write (Head_Write h w) out))"

text \<open>
  Modelled from the spec: \<open>TemplateLookup\<close>, which the tests call and the source does
  not hold. The spec's \<open>Lookup(name)\<close> is an exact-match lookup against the current
  compiled set, with no fall back to the file system.
\<close>

definition TemplateLookup :: "Render \<Rightarrow> string \<Rightarrow> node list option" where
  "TemplateLookup r nm = Lookup (templates r) nm"

section \<open>Inputs of the examples\<close>

text \<open>
  \<open>Options{}\<close>, a fresh response recorder, and four directory trees: a template and its
  layout; the same tree after an edit of \<open>hello.tmpl\<close>; a tree whose first file does
  not parse; and the tree of the lookup tests, where a directory bears the name
  \<open>dedicated.tmpl\<close>.
\<close>

definition no_options :: Options where
  "no_options =
     \<lparr>Directory = [], Options.Layout = [], Extensions = [], Funcs = [],
      Delims = \<lparr>Left = [], Right = []\<rparr>, Charset = [], IndentJSON = False,
      IndentXML = False, PrefixJSON = [], PrefixXML = [], HTMLContentType = [],
      IsDevelopment = False\<rparr>"

definition recorder :: ResponseWriter where
  "recorder = \<lparr>header = [], code = None, body = []\<rparr>"

definition basic_tree :: "entry list" where
  "basic_tree =
     [(''.'', Dir),
      (''hello.tmpl'', File ''Hello {{.}}''),
      (''layout.tmpl'', File ''<h1>{{yield}}</h1>'')]"

definition edited_tree :: "entry list" where
  "edited_tree =
     [(''.'', Dir),
      (''hello.tmpl'', File ''Goodbye {{.}}''),
      (''layout.tmpl'', File ''<h1>{{yield}}</h1>'')]"

definition broken_tree :: "entry list" where
  "broken_tree =
     [(''.'', Dir),
      (''broken.tmpl'', File ''Hello {{''),
      (''hello.tmpl'', File ''Hello {{.}}'')]"

definition lookup_test_tree :: "entry list" where
  "lookup_test_tree =
     [(''.'', Dir),
      (''0.tmpl'', File ''zero''),
      (''dedicated.tmpl'', Dir),
      (''dedicated.tmpl/notbad.tmpl'', File ''not bad''),
      (''subdir'', Dir),
      (''subdir/1.tmpl'', File ''one'')]"

text \<open>
  A path of two elements joined by a backslash, and a renderer that accepts the
  extensions \<open>.tmpl\<close> and \<open>.html\<close>.
\<close>

definition windows_elems :: "string list" where
  "windows_elems = [''sub'', ''f2.html'']"

definition two_ext_renderer :: Render where
  "two_ext_renderer =
     \<lparr>opt = no_options\<lparr>Extensions := [''.tmpl'', ''.html'']\<rparr>,
      templates = template_New ''templates'', compiledCharset = []\<rparr>"


definition dev_renderer :: Render where
  "dev_renderer = snd (New (CHR ''/'') basic_tree (no_options\<lparr>IsDevelopment := True\<rparr>))"

text \<open>The renderer built from the template and its layout, with the default layout \<open>layout\<close>.\<close>

definition layout_renderer :: Render where
  "layout_renderer =
     snd (New (CHR ''/'') basic_tree (no_options\<lparr>Options.Layout := ''layout''\<rparr>))"

text \<open>The renderer built from the template and its layout with \<open>Options{}\<close>.\<close>

definition plain_renderer :: Render where
  "plain_renderer = snd (New (CHR ''/'') basic_tree no_options)"

text \<open>An \<open>HTML\<close> value of engine.go that names a template the set does not hold.\<close>

definition missing_page :: HTML where
  "missing_page =
     \<lparr>Head.ContentType = ''text/html'', Status = 200, Name = ''nope'',
      Templates = templates plain_renderer\<rparr>"

text \<open>
  A user's function map that defines \<open>yield\<close>, and the renderer built with it from the
  template and its layout.
\<close>

definition my_yield :: FuncMap where
  "my_yield = [(''yield'', Const (Inr (Plain ''mine'')))]"

definition my_yield_renderer :: Render where
  "my_yield_renderer = snd (New (CHR ''/'') basic_tree (no_options\<lparr>Funcs := [my_yield]\<rparr>))"




section \<open>Lemmas on the string functions and on the walk\<close>

lemma Index_ge: "- 1 \<le> Index s c"
  by (induction s) (auto simp: Let_def)

lemma Index_found: "(Index s c \<noteq> - 1) = (c \<in> set s)"
proof (induction s)
  case Nil
  show ?case by simp
next
  case (Cons x xs)
  have "- 1 \<le> Index xs c" by (rule Index_ge)
  then have "Index xs c + 1 \<noteq> - 1" by arith
  with Cons show ?case by (auto simp: Let_def)
qed

lemma Split_not_empty: "Split s c \<noteq> []"
  by (induction s) (auto split: list.splits)

lemma Split_first: "\<exists>ps. Split s c = takeWhile (\<lambda>x. x \<noteq> c) s # ps"
  by (induction s) (auto split: list.splits)

lemma Join_Cons: "ps \<noteq> [] \<Longrightarrow> Join (p # ps) s = p @ s @ Join ps s"
  by (cases ps) auto

lemma Join_Split: "Join (Split s c) [c] = s"
proof (induction s)
  case Nil
  show ?case by simp
next
  case (Cons x xs)
  show ?case
  proof (cases "x = c")
    case True
    with Cons show ?thesis by (simp add: Join_Cons Split_not_empty)
  next
    case False
    obtain p ps where sp: "Split xs c = p # ps"
      using Split_not_empty [of xs c] by (cases "Split xs c") auto
    with Cons have "Join (p # ps) [c] = xs" by simp
    moreover have "Join ((x # p) # ps) [c] = x # Join (p # ps) [c]"
      by (cases ps) auto
    ultimately show ?thesis using False sp by simp
  qed
qed

lemma Join_rest: "c \<in> set s \<Longrightarrow> c # Join (drop 1 (Split s c)) [c] = dropWhile (\<lambda>x. x \<noteq> c) s"
proof (induction s)
  case Nil
  then show ?case by simp
next
  case (Cons x xs)
  show ?case
  proof (cases "x = c")
    case True
    then show ?thesis by (simp add: Join_Split)
  next
    case False
    with Cons.prems have "c \<in> set xs" by simp
    from Cons.IH [OF this] have ih: "c # Join (drop 1 (Split xs c)) [c] = dropWhile (\<lambda>x. x \<noteq> c) xs" .
    obtain p ps where sp: "Split xs c = p # ps"
      using Split_not_empty [of xs c] by (cases "Split xs c") auto
    with ih False show ?thesis by simp
  qed
qed

lemma ext_of_dropWhile: "ext_of rel = dropWhile (\<lambda>x. x \<noteq> CHR ''.'') rel"
proof (cases "CHR ''.'' \<in> set rel")
  case True
  then show ?thesis
    using Join_rest [of "CHR ''.''" rel] by (simp add: ext_of_def Index_found)
next
  case False
  then have "dropWhile (\<lambda>x. x \<noteq> CHR ''.'') rel = []"
    by (auto simp: dropWhile_eq_Nil_conv)
  moreover from False have "ext_of rel = []"
    by (simp add: ext_of_def Index_found)
  ultimately show ?thesis by (simp only:)
qed

lemma name_of_takeWhile: "name_of rel (ext_of rel) = takeWhile (\<lambda>x. x \<noteq> CHR ''.'') rel"
proof -
  have "length rel - length (dropWhile (\<lambda>x. x \<noteq> CHR ''.'') rel) = length (takeWhile (\<lambda>x. x \<noteq> CHR ''.'') rel)"
    by (metis add_diff_cancel_right' length_append takeWhile_dropWhile_id)
  then show ?thesis
    by (simp add: name_of_def ext_of_dropWhile takeWhile_eq_take [symmetric])
qed

lemma name_ext_rel: "name_of rel (ext_of rel) @ ext_of rel = rel"
  using name_of_takeWhile [of rel] by (simp add: ext_of_dropWhile)

lemma tryExtensions_mem:
  "tryExtensions sep r e ext exts =
     (if ext \<in> set exts then compileFile sep r e ext else (Normal, r))"
  by (induction exts) auto

lemma visit_eq:
  "visit sep r e =
     (if ext_of (fst e) \<in> set (Extensions (opt r)) then compileFile sep r e (ext_of (fst e))
      else (Normal, r))"
  by (simp add: visit_def tryExtensions_mem)

lemma compileFile_File:
  "compileFile sep r (rel, File src) ext =
     (let nm = ToSlash sep (name_of rel ext);
          t = at_parse r nm
      in case parse_checked t nm src of
           Inl err \<Rightarrow> (Panic err, r\<lparr>templates := t\<rparr>)
         | Inr ns \<Rightarrow> (Normal, r\<lparr>templates := t\<lparr>tunits := (nm, ns) # tunits t\<rparr>\<rparr>))"
  by (simp add: compileFile_def ReadFile_def Parse_def Let_def split: sum.splits)

lemma compileFile_Dir:
  "compileFile sep r (rel, Dir) ext = (Panic (''read '' @ rel @ '': is a directory''), r)"
  by (simp add: compileFile_def ReadFile_def)

lemma ToSlash_Join:
  assumes "\<forall>e \<in> set elems. sep \<notin> set e"
  shows "ToSlash sep (Join elems [sep]) = Join elems ''/''"
proof (cases "sep = CHR ''/''")
  case True
  then show ?thesis by (simp add: ToSlash_def)
next
  case False
  have "map (\<lambda>c. if c = sep then CHR ''/'' else c) (Join elems [sep]) = Join elems ''/''"
    using assms
  proof (induction elems)
    case Nil
    show ?case by simp
  next
    case (Cons p ps)
    then have "sep \<notin> set p" by simp
    then have p: "map (\<lambda>c. if c = sep then CHR ''/'' else c) p = p"
      by (induction p) auto
    show ?case
    proof (cases ps)
      case Nil
      with p show ?thesis by simp
    next
      case (Cons q qs)
      with Cons.IH Cons.prems p show ?thesis by simp
    qed
  qed
  with False show ?thesis by (simp add: ToSlash_def)
qed

lemma walk_append:
  "walk sep (pre @ post) r =
     (case walk sep pre r of
        (Normal, r') \<Rightarrow> walk sep post r'
      | (Panic x, r') \<Rightarrow> (Panic x, r'))"
  by (induction pre arbitrary: r) (auto split: prod.splits completion.splits)

lemma compileFile_opt: "compileFile sep r e ext = (c, r') \<Longrightarrow> opt r' = opt r"
  by (auto simp: compileFile_def Let_def split: sum.splits)

lemma visit_opt: "visit sep r e = (c, r') \<Longrightarrow> opt r' = opt r"
  by (auto simp: visit_eq split: if_splits dest: compileFile_opt)

lemma walk_opt: "walk sep fs r = (c, r') \<Longrightarrow> opt r' = opt r"
proof (induction fs arbitrary: r)
  case Nil
  then show ?case by simp
next
  case (Cons e es)
  obtain c1 r1 where v: "visit sep r e = (c1, r1)" by (cases "visit sep r e")
  then have o: "opt r1 = opt r" by (rule visit_opt)
  show ?case
  proof (cases c1)
    case Normal
    with Cons.prems v have "walk sep es r1 = (c, r')" by simp
    from Cons.IH [OF this] o show ?thesis by simp
  next
    case (Panic x)
    with Cons.prems v o show ?thesis by auto
  qed
qed

lemma compileTemplates_opt: "compileTemplates sep fs r = (c, r') \<Longrightarrow> opt r' = opt r"
  by (auto simp: compileTemplates_def Let_def dest: walk_opt)

lemma compileTemplates_fresh:
  "compileTemplates sep fs (r\<lparr>templates := t\<rparr>) = compileTemplates sep fs r"
  by (simp add: compileTemplates_def)

lemma compileTemplates_append:
  "compileTemplates sep (pre @ post) r =
     (case compileTemplates sep pre r of
        (Normal, r') \<Rightarrow> walk sep post r'
      | (Panic x, r') \<Rightarrow> (Panic x, r'))"
  by (simp add: compileTemplates_def walk_append Let_def)

lemma foldl_Funcs_simps:
  "tname (foldl template_Funcs t ms) = tname t"
  "tleft (foldl template_Funcs t ms) = tleft t"
  "tright (foldl template_Funcs t ms) = tright t"
  "tunits (foldl template_Funcs t ms) = tunits t"
  "tfuncs (foldl template_Funcs t ms) = concat (rev ms) @ tfuncs t"
  by (induction ms arbitrary: t) (auto simp: template_Funcs_def)

lemma at_parse_simps:
  "tname (at_parse r nm) = tname (templates r)"
  "tleft (at_parse r nm) = tleft (templates r)"
  "tright (at_parse r nm) = tright (templates r)"
  "tunits (at_parse r nm) = filter (\<lambda>p. fst p \<noteq> nm) (tunits (templates r))"
  "tfuncs (at_parse r nm) = helperFuncs @ concat (rev (Funcs (opt r))) @ tfuncs (templates r)"
  by (simp_all add: at_parse_def template_Funcs_def Template_New_def foldl_Funcs_simps)

lemma compileFile_tname: "compileFile sep r e ext = (c, r') \<Longrightarrow> tname (templates r') = tname (templates r)"
  by (auto simp: compileFile_def Parse_def Let_def at_parse_simps split: sum.splits)

lemma visit_tname: "visit sep r e = (c, r') \<Longrightarrow> tname (templates r') = tname (templates r)"
  by (auto simp: visit_eq split: if_splits dest: compileFile_tname)

lemma walk_tname: "walk sep fs r = (c, r') \<Longrightarrow> tname (templates r') = tname (templates r)"
proof (induction fs arbitrary: r)
  case Nil
  then show ?case by simp
next
  case (Cons e es)
  obtain c1 r1 where v: "visit sep r e = (c1, r1)" by (cases "visit sep r e")
  then have o: "tname (templates r1) = tname (templates r)" by (rule visit_tname)
  show ?case
  proof (cases c1)
    case Normal
    with Cons.prems v have "walk sep es r1 = (c, r')" by simp
    from Cons.IH [OF this] o show ?thesis by simp
  next
    case (Panic x)
    with Cons.prems v o show ?thesis by auto
  qed
qed

lemma compileTemplates_tname:
  "compileTemplates sep fs r = (c, r') \<Longrightarrow> tname (templates r') = Directory (opt r)"
  by (auto simp: compileTemplates_def Let_def template_Delims_def template_New_def
      dest: walk_tname)












lemma body_http_Error: "body (http_Error w msg c) = body w @ msg @ [CHR 0x0A]"
  by (simp add: http_Error_def Write_def WriteHeader_def Header_Set_def Let_def)

lemma code_http_Error:
  "code (http_Error w msg c) = (case code w of None \<Rightarrow> Some c | Some c' \<Rightarrow> Some c')"
  by (simp add: http_Error_def Write_def WriteHeader_def Header_Set_def Let_def
      split: option.splits)

lemma body_Write_header:
  "body (Write (WriteHeader (Header_Set w k v) c) out) = body w @ out"
  by (simp add: Write_def WriteHeader_def Header_Set_def Let_def)

lemma recompile_opt: "recompile sep fs r = (c, r') \<Longrightarrow> opt r' = opt r"
  by (auto simp: recompile_def split: if_splits dest: compileTemplates_opt)

lemma applyLayout_opt: "applyLayout r name binding htmlOpt = (r', name') \<Longrightarrow> opt r' = opt r"
  by (auto simp: applyLayout_def addYield_def Let_def split: if_splits)

lemma respond_renderer: "respond r w status res = Some (c, r', w') \<Longrightarrow> r' = r"
  by (auto simp: respond_def split: option.splits)

lemma Render_HTML_opt:
  assumes "Render_HTML n sep fs r w status name binding htmlOpt = Some (c, r', w')"
  shows "opt r' = opt r"
proof -
  obtain c1 r1 where rc: "recompile sep fs r = (c1, r1)" by (cases "recompile sep fs r")
  then have o1: "opt r1 = opt r" by (rule recompile_opt)
  show ?thesis
  proof (cases c1)
    case (Panic x)
    with assms rc o1 show ?thesis by (simp add: Render_HTML_def)
  next
    case Normal
    obtain r2 name' where al: "applyLayout r1 name binding htmlOpt = (r2, name')"
      by (cases "applyLayout r1 name binding htmlOpt")
    then have o2: "opt r2 = opt r1" by (rule applyLayout_opt)
    from assms rc Normal al have "respond r2 w status (execute n r2 name' binding) = Some (c, r', w')"
      by (simp add: Render_HTML_def)
    then have "r' = r2" by (rule respond_renderer)
    with o1 o2 show ?thesis by simp
  qed
qed

lemma prepareOptions_IsDevelopment:
  "IsDevelopment (opt (prepareOptions r)) = IsDevelopment (opt r)"
  by (simp add: prepareOptions_def Let_def)

lemma compileFile_tfuncs:
  "compileFile sep r (rel, File src) ext = (c, r') \<Longrightarrow>
   tfuncs (templates r') = helperFuncs @ concat (rev (Funcs (opt r))) @ tfuncs (templates r)"
  by (auto simp: compileFile_File Let_def at_parse_simps split: sum.splits)

lemma exec_Yield:
  "lookup_func t f = Some (Yield nm' b') \<Longrightarrow>
   exec (Suc m) t nm b (Call f # ns) buf =
     (case ExecuteTemplate m t nm' b' of
        None \<Rightarrow> None
      | Some (out, None) \<Rightarrow> exec (Suc m) t nm b ns (buf @ out)
      | Some (out, Some e) \<Rightarrow> Some (buf, Some (call_msg nm f e)))"
  by (simp add: ExecuteTemplate_def split: option.splits)


lemma exec_Const_value:
  "lookup_func t f = Some (Const (Inr v)) \<Longrightarrow>
   exec n t nm b (Call f # ns) buf = exec n t nm b ns (buf @ emit v)"
  by simp

lemma addYield_table:
  "lookup_func (templates (addYield r name binding)) ''yield'' = Some (Yield name binding)"
  "lookup_func (templates (addYield r name binding)) ''current'' = Some (Const (Inr (Plain name)))"
  "Lookup (templates (addYield r name binding)) = Lookup (templates r)"
  by (simp_all add: addYield_def template_Funcs_def lookup_func_def Lookup_def fun_eq_iff)

lemma applyLayout_layout:
  "HTMLOptions.Layout (prepareHTMLOptions r htmlOpt) \<noteq> [] \<Longrightarrow>
   applyLayout r name binding htmlOpt =
     (addYield r name binding, HTMLOptions.Layout (prepareHTMLOptions r htmlOpt))"
  by (simp add: applyLayout_def Let_def)





lemma helperFuncs_of_helpers:
  "map_of helperFuncs f = (if f = ''partial'' then None else map_of helpers_helperFuncs f)"
  by (simp add: helperFuncs_def helpers_helperFuncs_def)








section \<open>A file that does not parse\<close>

text \<open>
  Claim C1, as the code has it. If a matched file fails to parse, compilation stops at
  that file with a panic that carries the parse error, and no later entry is visited.
  \<open>compileTemplates\<close> starts by replacing the renderer's template set with a fresh
  one and fills it in place: after the failure the renderer holds the new set, named
  after the directory, with the units of the files compiled before the failing one
  (but for one that bore the failing file's name) and no others, whatever set
  \<open>old\<close> was installed before. In development mode the
  render call ends with that panic and leaves the response untouched.
\<close>

theorem parse_failure_aborts_compilation:
  assumes pre: "compileTemplates sep pre r = (Normal, r1)"
    and ext: "ext_of rel \<in> set (Extensions (opt r))"
    and bad: "parse_checked (at_parse r1 (ToSlash sep (name_of rel (ext_of rel))))
                (ToSlash sep (name_of rel (ext_of rel))) src = Inl err"
  shows "(let fs = pre @ (rel, File src) # post;
              nm = ToSlash sep (name_of rel (ext_of rel));
              r2 = r1\<lparr>templates := at_parse r1 nm\<rparr>
          in compileTemplates sep fs r = (Panic err, r2)
             \<and> compileTemplates sep fs (r\<lparr>templates := old\<rparr>) = (Panic err, r2)
             \<and> tunits (templates r2) = filter (\<lambda>p. fst p \<noteq> nm) (tunits (templates r1))
             \<and> tname (templates r2) = Directory (opt r)
             \<and> (IsDevelopment (opt r) \<longrightarrow>
                  Render_HTML n sep fs r w status name binding htmlOpt = Some (Panic err, r2, w)))"
proof -
  from pre have nm: "tname (templates r1) = Directory (opt r)" by (rule compileTemplates_tname)
  from pre have "opt r1 = opt r" by (rule compileTemplates_opt)
  with ext bad have v: "visit sep r1 (rel, File src) =
      (Panic err, r1\<lparr>templates := at_parse r1 (ToSlash sep (name_of rel (ext_of rel)))\<rparr>)"
    by (simp add: visit_eq compileFile_File Let_def)
  have c: "compileTemplates sep (pre @ (rel, File src) # post) r =
      (Panic err, r1\<lparr>templates := at_parse r1 (ToSlash sep (name_of rel (ext_of rel)))\<rparr>)"
    using pre v by (simp add: compileTemplates_append)
  then show ?thesis
    by (simp add: Let_def Render_HTML_def recompile_def compileTemplates_fresh at_parse_simps nm)
qed

theorem parse_failure_aborts_compilation_witness:
  "fst (compileTemplates (CHR ''/'') [(''.'', Dir)] dev_renderer) = Normal
   \<and> ext_of ''broken.tmpl'' \<in> set (Extensions (opt dev_renderer))
   \<and> IsDevelopment (opt dev_renderer)
   \<and> map_option fst
        (Render_HTML 1 (CHR ''/'') broken_tree dev_renderer recorder 200 ''hello''
           (BString ''gophers'') [])
       = Some (Panic ''template: broken: unclosed action'')
   \<and> map_option (snd \<circ> snd)
        (Render_HTML 1 (CHR ''/'') broken_tree dev_renderer recorder 200 ''hello''
           (BString ''gophers'') [])
       = Some recorder"
proof -
  define r1 where "r1 = snd (compileTemplates (CHR ''/'') [(''.'', Dir)] dev_renderer)"
  have f: "fst (compileTemplates (CHR ''/'') [(''.'', Dir)] dev_renderer) = Normal"
    by code_simp
  then have pre: "compileTemplates (CHR ''/'') [(''.'', Dir)] dev_renderer = (Normal, r1)"
    unfolding r1_def by (metis prod.collapse)
  have ext: "ext_of ''broken.tmpl'' \<in> set (Extensions (opt dev_renderer))"
    by code_simp
  have dev: "IsDevelopment (opt dev_renderer)"
    by code_simp
  have bad: "parse_checked
      (at_parse r1 (ToSlash (CHR ''/'') (name_of ''broken.tmpl'' (ext_of ''broken.tmpl''))))
      (ToSlash (CHR ''/'') (name_of ''broken.tmpl'' (ext_of ''broken.tmpl''))) ''Hello {{''
      = Inl ''template: broken: unclosed action''"
    unfolding r1_def by code_simp
  have fs: "broken_tree = [(''.'', Dir)] @ (''broken.tmpl'', File ''Hello {{'') # [(''hello.tmpl'', File ''Hello {{.}}'')]"
    by (simp add: broken_tree_def)
  from parse_failure_aborts_compilation [OF pre ext bad,
      where post = "[(''hello.tmpl'', File ''Hello {{.}}'')]" and n = 1 and w = recorder
        and status = 200 and name = "''hello''" and binding = "BString ''gophers''"
        and htmlOpt = "[]"] dev
  have "\<exists>r2. Render_HTML 1 (CHR ''/'') broken_tree dev_renderer recorder 200 ''hello''
           (BString ''gophers'') [] = Some (Panic ''template: broken: unclosed action'', r2, recorder)"
    unfolding fs by (simp add: Let_def)
  with f ext dev show ?thesis by auto
qed

text \<open>
  The claim as the spec states it, that the set installed before stays intact and can
  still be queried, fails: a renderer built from a template and its layout answers the
  lookup of \<open>hello\<close>; after a recompilation that meets a file with an unclosed
  action it no longer does.
\<close>

theorem failed_recompile_drops_old_set:
  "fst (New (CHR ''/'') basic_tree no_options) = Normal
   \<and> TemplateLookup (snd (New (CHR ''/'') basic_tree no_options)) ''hello''
       = Some [Text ''Hello '', Dot]
   \<and> fst (compileTemplates (CHR ''/'') broken_tree (snd (New (CHR ''/'') basic_tree no_options)))
       \<noteq> Normal
   \<and> TemplateLookup
         (snd (compileTemplates (CHR ''/'') broken_tree
                 (snd (New (CHR ''/'') basic_tree no_options)))) ''hello''
       = None"
  by code_simp

section \<open>Extension and name of a visited entry\<close>

text \<open>
  Claim C2. For every visited entry the walker takes as extension the part of the
  root-relative path that starts at its first dot (the dot, then everything after it;
  empty when the path has no dot), not the final suffix. The entry is compiled when
  this string is equal to an entry of the configured extensions, and only then. The
  unit is registered under the relative path without that suffix, which is the path up
  to its first dot, with the platform's separator turned into a forward slash.
\<close>

theorem compile_matches_from_first_dot:
  "ext_of rel =
     (if CHR ''.'' \<in> set rel then CHR ''.'' # tl (dropWhile (\<lambda>c. c \<noteq> CHR ''.'') rel) else [])
   \<and> name_of rel (ext_of rel) = takeWhile (\<lambda>c. c \<noteq> CHR ''.'') rel
   \<and> visit sep r (rel, Dir) =
       (if ext_of rel \<in> set (Extensions (opt r))
        then (Panic (''read '' @ rel @ '': is a directory''), r)
        else (Normal, r))
   \<and> visit sep r (rel, File src) =
       (if ext_of rel \<in> set (Extensions (opt r))
        then (let nm = ToSlash sep (takeWhile (\<lambda>c. c \<noteq> CHR ''.'') rel);
                  t = at_parse r nm
              in case parse_checked t nm src of
                   Inl err \<Rightarrow> (Panic err, r\<lparr>templates := t\<rparr>)
                 | Inr ns \<Rightarrow>
                    (Normal, r\<lparr>templates := t\<lparr>tunits := (nm, ns) # tunits t\<rparr>\<rparr>))
        else (Normal, r))
   \<and> ((\<forall>e \<in> set elems. sep \<notin> set e) \<longrightarrow>
        ToSlash sep (Join elems [sep]) = Join elems ''/'')"
proof -
  have "ext_of rel =
     (if CHR ''.'' \<in> set rel then CHR ''.'' # tl (dropWhile (\<lambda>c. c \<noteq> CHR ''.'') rel) else [])"
  proof (cases "CHR ''.'' \<in> set rel")
    case True
    then have "dropWhile (\<lambda>c. c \<noteq> CHR ''.'') rel \<noteq> []"
      by (auto simp: dropWhile_eq_Nil_conv)
    then have "hd (dropWhile (\<lambda>c. c \<noteq> CHR ''.'') rel) = CHR ''.''"
      using hd_dropWhile [of "\<lambda>c. c \<noteq> CHR ''.''" rel] by simp
    with \<open>dropWhile (\<lambda>c. c \<noteq> CHR ''.'') rel \<noteq> []\<close> True show ?thesis
      by (cases "dropWhile (\<lambda>c. c \<noteq> CHR ''.'') rel") (auto simp: ext_of_dropWhile)
  next
    case False
    then show ?thesis by (simp add: ext_of_def Index_found)
  qed
  moreover have "visit sep r (rel, Dir) =
       (if ext_of rel \<in> set (Extensions (opt r))
        then (Panic (''read '' @ rel @ '': is a directory''), r)
        else (Normal, r))"
    by (simp add: visit_eq compileFile_Dir)
  moreover have "visit sep r (rel, File src) =
       (if ext_of rel \<in> set (Extensions (opt r))
        then (let nm = ToSlash sep (takeWhile (\<lambda>c. c \<noteq> CHR ''.'') rel);
                  t = at_parse r nm
              in case parse_checked t nm src of
                   Inl err \<Rightarrow> (Panic err, r\<lparr>templates := t\<rparr>)
                 | Inr ns \<Rightarrow>
                    (Normal, r\<lparr>templates := t\<lparr>tunits := (nm, ns) # tunits t\<rparr>\<rparr>))
        else (Normal, r))"
    by (simp add: visit_eq compileFile_File name_of_takeWhile)
  ultimately show ?thesis
    using name_of_takeWhile [of rel] ToSlash_Join [where elems = elems and sep = sep] by blast
qed

theorem compile_matches_from_first_dot_witness:
  "list_all (\<lambda>e. CHR 0x5C \<notin> set e) windows_elems
   \<and> ext_of (Join windows_elems [CHR 0x5C]) = ''.html''
   \<and> ext_of (Join windows_elems [CHR 0x5C]) \<in> set (Extensions (opt two_ext_renderer))
   \<and> TemplateLookup
         (snd (visit (CHR 0x5C) two_ext_renderer (Join windows_elems [CHR 0x5C], File ''Hi'')))
         ''sub/f2'' = Some [Text ''Hi'']
   \<and> ToSlash (CHR 0x5C) (Join windows_elems [CHR 0x5C]) = ''sub/f2.html''
   \<and> ext_of ''dedicated.tmpl/notbad.tmpl'' = ''.tmpl/notbad.tmpl''
   \<and> visit (CHR ''/'') two_ext_renderer (''dedicated.tmpl/notbad.tmpl'', File ''Hi'')
       = (Normal, two_ext_renderer)"
proof -
  have h: "\<forall>e \<in> set windows_elems. CHR 0x5C \<notin> set e"
    by (simp add: windows_elems_def)
  have e: "ext_of (Join windows_elems [CHR 0x5C]) = ''.html''"
    by code_simp
  have m: "ext_of (Join windows_elems [CHR 0x5C]) \<in> set (Extensions (opt two_ext_renderer))"
    unfolding e by (simp add: two_ext_renderer_def no_options_def)
  have e2: "ext_of ''dedicated.tmpl/notbad.tmpl'' = ''.tmpl/notbad.tmpl''"
    by code_simp
  have m2: "ext_of ''dedicated.tmpl/notbad.tmpl'' \<notin> set (Extensions (opt two_ext_renderer))"
    unfolding e2 by (simp add: two_ext_renderer_def no_options_def)
  note a = compile_matches_from_first_dot
    [where rel = "Join windows_elems [CHR 0x5C]" and sep = "CHR 0x5C" and r = two_ext_renderer
       and src = "''Hi''" and elems = windows_elems]
  note b = compile_matches_from_first_dot
    [where rel = "''dedicated.tmpl/notbad.tmpl''" and sep = "CHR ''/''" and r = two_ext_renderer
       and src = "''Hi''" and elems = "[]"]
  from a h have "ToSlash (CHR 0x5C) (Join windows_elems [CHR 0x5C]) = Join windows_elems ''/''"
    by blast
  then have "ToSlash (CHR 0x5C) (Join windows_elems [CHR 0x5C]) = ''sub/f2.html''"
    by (simp add: windows_elems_def)
  moreover have "TemplateLookup
         (snd (visit (CHR 0x5C) two_ext_renderer (Join windows_elems [CHR 0x5C], File ''Hi'')))
         ''sub/f2'' = Some [Text ''Hi'']"
    by code_simp
  moreover from b m2 have "visit (CHR ''/'') two_ext_renderer (''dedicated.tmpl/notbad.tmpl'', File ''Hi'')
       = (Normal, two_ext_renderer)"
    by simp
  moreover have "list_all (\<lambda>e. CHR 0x5C \<notin> set e) windows_elems"
    by (simp add: windows_elems_def)
  ultimately show ?thesis using e m e2 by blast
qed

section \<open>A directory that bears an extension\<close>

text \<open>
  Claim C3, on the tree of the lookup tests with the extensions \<open>.tmpl\<close> and
  \<open>.html\<close>. The walk reaches the directory \<open>dedicated.tmpl\<close>, whose extension
  matches; \<open>compileTemplates\<close> then reads it as a file, which fails, and panics. The
  directory is not registered, but neither is any file after it: \<open>subdir/1\<close> is
  absent, and \<open>New\<close> does not return normally.
\<close>

theorem directory_with_extension_panics:
  "fst (New (CHR ''/'') lookup_test_tree (no_options\<lparr>Extensions := [''.tmpl'', ''.html'']\<rparr>))
     = Panic ''read dedicated.tmpl: is a directory''
   \<and> TemplateLookup
         (snd (New (CHR ''/'') lookup_test_tree
                 (no_options\<lparr>Extensions := [''.tmpl'', ''.html'']\<rparr>))) ''0''
       = Some [Text ''zero'']
   \<and> TemplateLookup
         (snd (New (CHR ''/'') lookup_test_tree
                 (no_options\<lparr>Extensions := [''.tmpl'', ''.html'']\<rparr>))) ''subdir/1''
       = None
   \<and> TemplateLookup
         (snd (New (CHR ''/'') lookup_test_tree
                 (no_options\<lparr>Extensions := [''.tmpl'', ''.html'']\<rparr>))) ''dedicated''
       = None
   \<and> ext_of ''dedicated.tmpl'' = ''.tmpl''"
  by code_simp

section \<open>The order of the function maps\<close>

text \<open>
  Claim C4, as the code has it. When a matched file is compiled, the user's function
  maps are applied first, in their configured order, and \<open>helperFuncs\<close> last, before
  the parse. The table the unit is parsed and stored with therefore binds a name to the
  built-in stand-in when \<open>helperFuncs\<close> has it (\<open>yield\<close>, \<open>current\<close>), else to
  the last user map that defines it, else to what the set held before: a user map
  cannot redefine the names of the stand-ins.
\<close>

theorem helperFuncs_applied_last:
  "lookup_func (at_parse r nm) f =
     (case map_of helperFuncs f of
        Some g \<Rightarrow> Some g
      | None \<Rightarrow>
         (case map_of (concat (rev (Funcs (opt r)))) f of
            Some g \<Rightarrow> Some g
          | None \<Rightarrow> lookup_func (templates r) f))
   \<and> map_of (concat (rev (ms @ [m]))) f =
       (case map_of m f of Some g \<Rightarrow> Some g | None \<Rightarrow> map_of (concat (rev ms)) f)
   \<and> (ext_of rel \<in> set (Extensions (opt r)) \<and> visit sep r (rel, File src) = (c, r') \<longrightarrow>
        tfuncs (templates r') = helperFuncs @ concat (rev (Funcs (opt r))) @ tfuncs (templates r))"
proof -
  have a: "lookup_func (at_parse r nm) f =
     (case map_of helperFuncs f of
        Some g \<Rightarrow> Some g
      | None \<Rightarrow>
         (case map_of (concat (rev (Funcs (opt r)))) f of
            Some g \<Rightarrow> Some g
          | None \<Rightarrow> lookup_func (templates r) f))"
    by (simp add: lookup_func_def at_parse_simps map_add_def split: option.splits)
  have b: "map_of (concat (rev (ms @ [m]))) f =
       (case map_of m f of Some g \<Rightarrow> Some g | None \<Rightarrow> map_of (concat (rev ms)) f)"
    by (simp add: map_add_def split: option.splits)
  have c: "ext_of rel \<in> set (Extensions (opt r)) \<and> visit sep r (rel, File src) = (c, r') \<longrightarrow>
        tfuncs (templates r') = helperFuncs @ concat (rev (Funcs (opt r))) @ tfuncs (templates r)"
    by (auto simp: visit_eq dest: compileFile_tfuncs)
  from a b c show ?thesis by blast
qed

theorem helperFuncs_applied_last_witness:
  "ext_of ''hello.tmpl'' \<in> set (Extensions (opt my_yield_renderer))
   \<and> fst (visit (CHR ''/'') my_yield_renderer (''hello.tmpl'', File ''Hello {{.}}'')) = Normal
   \<and> tfuncs (templates
        (snd (visit (CHR ''/'') my_yield_renderer (''hello.tmpl'', File ''Hello {{.}}''))))
       = helperFuncs @ concat (rev (Funcs (opt my_yield_renderer)))
           @ tfuncs (templates my_yield_renderer)
   \<and> map_of (concat (rev (Funcs (opt my_yield_renderer)))) ''yield''
       = Some (Const (Inr (Plain ''mine'')))
   \<and> lookup_func (at_parse my_yield_renderer ''hello'') ''yield''
       = Some (Const (Inl ''yield called with no layout defined''))"
proof -
  have e: "ext_of ''hello.tmpl'' \<in> set (Extensions (opt my_yield_renderer))"
    by code_simp
  have n: "fst (visit (CHR ''/'') my_yield_renderer (''hello.tmpl'', File ''Hello {{.}}'')) = Normal"
    by code_simp
  then have v: "visit (CHR ''/'') my_yield_renderer (''hello.tmpl'', File ''Hello {{.}}'')
      = (Normal, snd (visit (CHR ''/'') my_yield_renderer (''hello.tmpl'', File ''Hello {{.}}'')))"
    by (metis prod.collapse)
  have h: "map_of helperFuncs ''yield'' = Some (Const (Inl ''yield called with no layout defined''))"
    by (simp add: helperFuncs_def)
  have u: "map_of (concat (rev (Funcs (opt my_yield_renderer)))) ''yield''
       = Some (Const (Inr (Plain ''mine'')))"
    by code_simp
  note t = helperFuncs_applied_last
    [where rel = "''hello.tmpl''" and r = my_yield_renderer and sep = "CHR ''/''"
       and src = "''Hello {{.}}''" and c = Normal
       and r' = "snd (visit (CHR ''/'') my_yield_renderer (''hello.tmpl'', File ''Hello {{.}}''))"
       and nm = "''hello''" and f = "''yield''" and ms = "[]" and m = "[]"]
  from t e v have "tfuncs (templates
        (snd (visit (CHR ''/'') my_yield_renderer (''hello.tmpl'', File ''Hello {{.}}''))))
       = helperFuncs @ concat (rev (Funcs (opt my_yield_renderer)))
           @ tfuncs (templates my_yield_renderer)"
    by blast
  moreover from t h have "lookup_func (at_parse my_yield_renderer ''hello'') ''yield''
       = Some (Const (Inl ''yield called with no layout defined''))"
    by simp
  ultimately show ?thesis using e n u by blast
qed

text \<open>
  The claim as the spec states it, that the stand-ins are attached first and a user map
  that defines one of their names is applied after them, fails: with a user map that
  defines \<open>yield\<close>, the compiled set binds \<open>yield\<close> to the stand-in, and rendering the
  template that calls it fails with the stand-in's error.
\<close>

theorem user_yield_is_overridden:
  "fst (New (CHR ''/'') basic_tree (no_options\<lparr>Funcs := [my_yield]\<rparr>)) = Normal
   \<and> map_of my_yield ''yield'' = Some (Const (Inr (Plain ''mine'')))
   \<and> lookup_func (templates my_yield_renderer) ''yield''
       = Some (Const (Inl ''yield called with no layout defined''))
   \<and> map_option (code \<circ> snd \<circ> snd)
        (Render_HTML 1 (CHR ''/'') basic_tree my_yield_renderer recorder 200 ''layout''
           (BString ''gophers'') [])
       = Some (Some 500)"
  by code_simp

section \<open>Rendering under a layout\<close>

text \<open>
  Claim C5. When the call resolves a layout \<open>l\<close> that is not empty, the name that is
  executed is \<open>l\<close> and the binding is the one of the call. The set is the compiled one
  with two functions rebound: \<open>yield\<close> executes the requested template \<open>name\<close> with
  that same binding and hands its output over as \<open>template.HTML\<close>, so the layout
  appends it as it is (an error of the inner execution fails the layout); \<open>current\<close>
  returns \<open>name\<close>. In particular the template \<open>Hello {{.}}\<close> under the layout
  \<open><h1>{{yield}}</h1>\<close> with the binding \<open>gophers\<close> renders
  \<open><h1>Hello gophers</h1>\<close>, with any fuel from one on.
\<close>

theorem layout_wraps_requested_template:
  assumes "recompile sep fs r = (Normal, r1)"
    and "HTMLOptions.Layout (prepareHTMLOptions r1 htmlOpt) = l"
    and "l \<noteq> []"
  shows "(let r2 = addYield r1 name binding; t = templates r2
          in Render_HTML n sep fs r w status name binding htmlOpt
               = respond r2 w status (execute n r2 l binding)
             \<and> execute n r2 l binding = ExecuteTemplate n t l binding
             \<and> Lookup t = Lookup (templates r1)
             \<and> lookup_func t ''yield'' = Some (Yield name binding)
             \<and> lookup_func t ''current'' = Some (Const (Inr (Plain name)))
             \<and> exec (Suc m) t l binding (Call ''yield'' # ns) buf =
                 (case ExecuteTemplate m t name binding of
                    None \<Rightarrow> None
                  | Some (out, None) \<Rightarrow> exec (Suc m) t l binding ns (buf @ out)
                  | Some (out, Some e) \<Rightarrow> Some (buf, Some (call_msg l ''yield'' e)))
             \<and> exec m t l binding (Call ''current'' # ns) buf =
                 exec m t l binding ns (buf @ HTMLEscape name))
         \<and> map_option (body \<circ> snd \<circ> snd)
              (Render_HTML (Suc k) (CHR ''/'') basic_tree layout_renderer recorder 200 ''hello''
                 (BString ''gophers'') [])
             = Some ''<h1>Hello gophers</h1>''"
proof -
  have al: "applyLayout r1 name binding htmlOpt = (addYield r1 name binding, l)"
    using assms(2,3) applyLayout_layout [of r1 htmlOpt name binding] by simp
  have a: "Render_HTML n sep fs r w status name binding htmlOpt
      = respond (addYield r1 name binding) w status (execute n (addYield r1 name binding) l binding)"
    using assms(1) al by (simp add: Render_HTML_def)
  have y: "exec (Suc m) (templates (addYield r1 name binding)) l binding (Call ''yield'' # ns) buf =
      (case ExecuteTemplate m (templates (addYield r1 name binding)) name binding of
         None \<Rightarrow> None
       | Some (out, None) \<Rightarrow>
           exec (Suc m) (templates (addYield r1 name binding)) l binding ns (buf @ out)
       | Some (out, Some e) \<Rightarrow> Some (buf, Some (call_msg l ''yield'' e)))"
    by (rule exec_Yield) (rule addYield_table)
  have c: "exec m (templates (addYield r1 name binding)) l binding (Call ''current'' # ns) buf =
      exec m (templates (addYield r1 name binding)) l binding ns (buf @ HTMLEscape name)"
    using exec_Const_value [OF addYield_table(2)] by simp
  have ex: "map_option (body \<circ> snd \<circ> snd)
      (Render_HTML (Suc k) (CHR ''/'') basic_tree layout_renderer recorder 200 ''hello''
         (BString ''gophers'') [])
      = Some ''<h1>Hello gophers</h1>''"
    by code_simp
  from a y c ex show ?thesis
    by (simp add: Let_def addYield_table execute_def)
qed

theorem layout_wraps_requested_template_witness:
  "recompile (CHR ''/'') basic_tree layout_renderer = (Normal, layout_renderer)
   \<and> HTMLOptions.Layout (prepareHTMLOptions layout_renderer []) = ''layout''
   \<and> ''layout'' \<noteq> []
   \<and> Render_HTML 1 (CHR ''/'') basic_tree layout_renderer recorder 200 ''hello''
         (BString ''gophers'') []
       = respond (addYield layout_renderer ''hello'' (BString ''gophers'')) recorder 200
           (execute 1 (addYield layout_renderer ''hello'' (BString ''gophers'')) ''layout''
              (BString ''gophers''))
   \<and> execute 1 (addYield layout_renderer ''hello'' (BString ''gophers'')) ''layout''
         (BString ''gophers'')
       = Some (''<h1>Hello gophers</h1>'', None)
   \<and> execute 0 (addYield layout_renderer ''hello'' (BString ''gophers'')) ''layout''
         (BString ''gophers'')
       = None
   \<and> execute 1 (addYield layout_renderer ''hello'' (BString ''<b>'')) ''layout'' (BString ''<b>'')
       = Some (''<h1>Hello &lt;b&gt;</h1>'', None)"
proof -
  have rc: "recompile (CHR ''/'') basic_tree layout_renderer = (Normal, layout_renderer)"
    by code_simp
  have l: "HTMLOptions.Layout (prepareHTMLOptions layout_renderer []) = ''layout''"
    by code_simp
  have ne: "''layout'' \<noteq> []" by simp
  note t = layout_wraps_requested_template [OF rc l ne,
      where name = "''hello''" and binding = "BString ''gophers''" and n = 1 and w = recorder
        and status = 200]
  from t have "Render_HTML 1 (CHR ''/'') basic_tree layout_renderer recorder 200 ''hello''
         (BString ''gophers'') []
       = respond (addYield layout_renderer ''hello'' (BString ''gophers'')) recorder 200
           (execute 1 (addYield layout_renderer ''hello'' (BString ''gophers'')) ''layout''
              (BString ''gophers''))"
    by (simp add: Let_def del: One_nat_def)
  moreover have "execute 1 (addYield layout_renderer ''hello'' (BString ''gophers'')) ''layout''
         (BString ''gophers'')
       = Some (''<h1>Hello gophers</h1>'', None)"
    by code_simp
  moreover have "execute 0 (addYield layout_renderer ''hello'' (BString ''gophers'')) ''layout''
         (BString ''gophers'')
       = None"
    by code_simp
  moreover have "execute 1 (addYield layout_renderer ''hello'' (BString ''<b>'')) ''layout''
         (BString ''<b>'')
       = Some (''<h1>Hello &lt;b&gt;</h1>'', None)"
    by code_simp
  ultimately show ?thesis using rc l ne by blast
qed

section \<open>A failed execution\<close>

text \<open>
  Claim C7. The template is executed into a buffer of its own, and the response is
  touched only once the execution has returned. When the execution fails, with
  whatever partial output \<open>out\<close> in the buffer, \<open>(h HTML) Render\<close> returns the error
  and leaves the response as it was; \<open>(r *Render) HTML\<close> reports the error at once
  through \<open>http.Error\<close>, so that the body receives the error's message and a newline
  and nothing of \<open>out\<close>. When it succeeds the body receives the whole buffer.
\<close>

theorem failed_execution_writes_no_output:
  "(ExecuteTemplate n (Templates h) (Name h) binding = Some (out, Some err) \<longrightarrow>
      HTML_Render n h w binding = Some (Some err, w))
   \<and> (recompile sep fs r = (Normal, r1) \<and> applyLayout r1 name binding htmlOpt = (r2, name')
        \<and> execute n r2 name' binding = Some (out, Some err) \<longrightarrow>
      Render_HTML n sep fs r w status name binding htmlOpt
        = Some (Normal, r2, http_Error w err 500))
   \<and> body (http_Error w err 500) = body w @ err @ [CHR 0x0A]
   \<and> code (http_Error w err 500) = (case code w of None \<Rightarrow> Some 500 | Some c \<Rightarrow> Some c)
   \<and> (recompile sep fs r = (Normal, r1) \<and> applyLayout r1 name binding htmlOpt = (r2, name')
        \<and> execute n r2 name' binding = Some (out, None) \<longrightarrow>
      map_option (body \<circ> snd \<circ> snd) (Render_HTML n sep fs r w status name binding htmlOpt)
        = Some (body w @ out))"
proof -
  have a: "ExecuteTemplate n (Templates h) (Name h) binding = Some (out, Some err) \<longrightarrow>
      HTML_Render n h w binding = Some (Some err, w)"
    by (simp add: HTML_Render_def)
  have b: "recompile sep fs r = (Normal, r1) \<and> applyLayout r1 name binding htmlOpt = (r2, name')
        \<and> execute n r2 name' binding = Some (out, Some err) \<longrightarrow>
      Render_HTML n sep fs r w status name binding htmlOpt
        = Some (Normal, r2, http_Error w err 500)"
    by (simp add: Render_HTML_def respond_def)
  have c: "recompile sep fs r = (Normal, r1) \<and> applyLayout r1 name binding htmlOpt = (r2, name')
        \<and> execute n r2 name' binding = Some (out, None) \<longrightarrow>
      map_option (body \<circ> snd \<circ> snd) (Render_HTML n sep fs r w status name binding htmlOpt)
        = Some (body w @ out)"
    by (simp add: Render_HTML_def respond_def body_Write_header)
  from a b c show ?thesis
    using body_http_Error [of w err 500] code_http_Error [of w err 500] by blast
qed

theorem failed_execution_writes_no_output_witness:
  "recompile (CHR ''/'') basic_tree plain_renderer = (Normal, plain_renderer)
   \<and> applyLayout plain_renderer ''layout'' (BString ''gophers'') [] = (plain_renderer, ''layout'')
   \<and> execute 1 plain_renderer ''layout'' (BString ''gophers'')
       = Some (''<h1>'',
           Some ''template: layout: error calling yield: yield called with no layout defined'')
   \<and> Render_HTML 1 (CHR ''/'') basic_tree plain_renderer recorder 200 ''layout''
         (BString ''gophers'') []
       = Some (Normal, plain_renderer,
           http_Error recorder
             ''template: layout: error calling yield: yield called with no layout defined'' 500)
   \<and> HTML_Render 1
         missing_page recorder (BString ''gophers'')
       = Some (Some ''html/template: nope is undefined'', recorder)"
proof -
  have rc: "recompile (CHR ''/'') basic_tree plain_renderer = (Normal, plain_renderer)"
    by code_simp
  have al: "applyLayout plain_renderer ''layout'' (BString ''gophers'') []
      = (plain_renderer, ''layout'')"
    by code_simp
  have ex: "execute 1 plain_renderer ''layout'' (BString ''gophers'')
       = Some (''<h1>'',
           Some ''template: layout: error calling yield: yield called with no layout defined'')"
    by code_simp
  have et: "ExecuteTemplate 1
      (Templates missing_page)
      (Name missing_page) (BString ''gophers'')
      = Some ([], Some ''html/template: nope is undefined'')"
    by code_simp
  note t = failed_execution_writes_no_output
    [where n = 1 and sep = "CHR ''/''" and fs = basic_tree and r = plain_renderer
       and ?r1.0 = plain_renderer and ?r2.0 = plain_renderer and name = "''layout''"
       and name' = "''layout''" and binding = "BString ''gophers''" and htmlOpt = "[]"
       and out = "''<h1>''" and w = recorder and status = 200
       and err = "''template: layout: error calling yield: yield called with no layout defined''"]
  note u = failed_execution_writes_no_output
    [where n = 1 and binding = "BString ''gophers''" and out = "[]" and w = recorder
       and err = "''html/template: nope is undefined''"
       and h = "missing_page"]
  from t rc al ex have "Render_HTML 1 (CHR ''/'') basic_tree plain_renderer recorder 200 ''layout''
         (BString ''gophers'') []
       = Some (Normal, plain_renderer,
           http_Error recorder
             ''template: layout: error calling yield: yield called with no layout defined'' 500)"
    by blast
  moreover from u et have "HTML_Render 1
         missing_page recorder (BString ''gophers'')
       = Some (Some ''html/template: nope is undefined'', recorder)"
    by blast
  ultimately show ?thesis using rc al ex by blast
qed

section \<open>Development mode\<close>

text \<open>
  Claim C8. With \<open>IsDevelopment\<close> set, every \<open>HTML\<close> call starts with
  \<open>compileTemplates\<close> on the file system as it is at that moment, so its result does
  not depend on the set \<open>t\<close> that was installed before. With the flag unset the call
  compiles nothing and never reads the file system: the only compilation is the one
  \<open>New\<close> makes. A call does not change the options, so the flag holds for the next
  call as well.
\<close>

theorem development_mode_recompiles:
  "(IsDevelopment (opt r) \<longrightarrow>
      recompile sep fs r = compileTemplates sep fs r
      \<and> Render_HTML n sep fs (r\<lparr>templates := t\<rparr>) w status name binding htmlOpt
          = Render_HTML n sep fs r w status name binding htmlOpt)
   \<and> (\<not> IsDevelopment (opt r) \<longrightarrow>
      recompile sep fs r = (Normal, r)
      \<and> Render_HTML n sep fs r w status name binding htmlOpt
          = Render_HTML n sep fs' r w status name binding htmlOpt)
   \<and> (Render_HTML n sep fs r w status name binding htmlOpt = Some (c, r', w') \<longrightarrow>
      opt r' = opt r)
   \<and> New sep fs options =
       compileTemplates sep fs
         (prepareOptions \<lparr>opt = options, templates = template_New [], compiledCharset = []\<rparr>)
   \<and> IsDevelopment (opt (snd (New sep fs options))) = IsDevelopment options"
proof -
  have a: "IsDevelopment (opt r) \<longrightarrow>
      recompile sep fs r = compileTemplates sep fs r
      \<and> Render_HTML n sep fs (r\<lparr>templates := t\<rparr>) w status name binding htmlOpt
          = Render_HTML n sep fs r w status name binding htmlOpt"
    by (simp add: Render_HTML_def recompile_def compileTemplates_fresh)
  have b: "\<not> IsDevelopment (opt r) \<longrightarrow>
      recompile sep fs r = (Normal, r)
      \<and> Render_HTML n sep fs r w status name binding htmlOpt
          = Render_HTML n sep fs' r w status name binding htmlOpt"
    by (simp add: Render_HTML_def recompile_def)
  have c: "Render_HTML n sep fs r w status name binding htmlOpt = Some (c, r', w') \<longrightarrow>
      opt r' = opt r"
    by (auto dest: Render_HTML_opt)
  have d: "IsDevelopment (opt (snd (New sep fs options))) = IsDevelopment options"
  proof -
    obtain c0 r0 where n: "New sep fs options = (c0, r0)" by (cases "New sep fs options")
    then have "opt r0 = opt (prepareOptions
        \<lparr>opt = options, templates = template_New [], compiledCharset = []\<rparr>)"
      unfolding New_def by (rule compileTemplates_opt)
    with n show ?thesis by (simp add: prepareOptions_IsDevelopment)
  qed
  from a b c d show ?thesis by (simp add: New_def)
qed

theorem development_mode_recompiles_witness:
  "IsDevelopment (opt dev_renderer)
   \<and> map_option (body \<circ> snd \<circ> snd)
        (Render_HTML 1 (CHR ''/'') basic_tree dev_renderer recorder 200 ''hello''
           (BString ''gophers'') [])
       = Some ''Hello gophers''
   \<and> (case Render_HTML 1 (CHR ''/'') basic_tree dev_renderer recorder 200 ''hello''
               (BString ''gophers'') [] of
         None \<Rightarrow> None
       | Some (c, r', w') \<Rightarrow>
           map_option (body \<circ> snd \<circ> snd)
             (Render_HTML 1 (CHR ''/'') edited_tree r' recorder 200 ''hello''
                (BString ''gophers'') []))
       = Some ''Goodbye gophers''
   \<and> Render_HTML 1 (CHR ''/'') edited_tree (dev_renderer\<lparr>templates := template_New []\<rparr>)
         recorder 200 ''hello'' (BString ''gophers'') []
       = Render_HTML 1 (CHR ''/'') edited_tree dev_renderer
         recorder 200 ''hello'' (BString ''gophers'') []
   \<and> IsDevelopment (opt plain_renderer) = False
   \<and> Render_HTML 1 (CHR ''/'') basic_tree plain_renderer recorder 200 ''hello''
         (BString ''gophers'') []
       = Render_HTML 1 (CHR ''/'') edited_tree plain_renderer recorder 200 ''hello''
         (BString ''gophers'') []
   \<and> map_option (body \<circ> snd \<circ> snd)
        (Render_HTML 1 (CHR ''/'') edited_tree plain_renderer recorder 200 ''hello''
           (BString ''gophers'') [])
       = Some ''Hello gophers''"
proof -
  have dev: "IsDevelopment (opt dev_renderer)" by code_simp
  have nodev: "\<not> IsDevelopment (opt plain_renderer)" by code_simp
  have c1: "map_option (body \<circ> snd \<circ> snd)
        (Render_HTML 1 (CHR ''/'') basic_tree dev_renderer recorder 200 ''hello''
           (BString ''gophers'') [])
       = Some ''Hello gophers''"
    by code_simp
  have c2: "(case Render_HTML 1 (CHR ''/'') basic_tree dev_renderer recorder 200 ''hello''
               (BString ''gophers'') [] of
         None \<Rightarrow> None
       | Some (c, r', w') \<Rightarrow>
           map_option (body \<circ> snd \<circ> snd)
             (Render_HTML 1 (CHR ''/'') edited_tree r' recorder 200 ''hello''
                (BString ''gophers'') []))
       = Some ''Goodbye gophers''"
    by code_simp
  have c3: "map_option (body \<circ> snd \<circ> snd)
        (Render_HTML 1 (CHR ''/'') edited_tree plain_renderer recorder 200 ''hello''
           (BString ''gophers'') [])
       = Some ''Hello gophers''"
    by code_simp
  from development_mode_recompiles
    [where r = dev_renderer and sep = "CHR ''/''" and fs = edited_tree and n = 1
       and t = "template_New []" and w = recorder and status = 200 and name = "''hello''"
       and binding = "BString ''gophers''" and htmlOpt = "[]"] dev
  have e1: "Render_HTML 1 (CHR ''/'') edited_tree (dev_renderer\<lparr>templates := template_New []\<rparr>)
         recorder 200 ''hello'' (BString ''gophers'') []
       = Render_HTML 1 (CHR ''/'') edited_tree dev_renderer
         recorder 200 ''hello'' (BString ''gophers'') []"
    by blast
  from development_mode_recompiles
    [where r = plain_renderer and sep = "CHR ''/''" and fs = basic_tree and fs' = edited_tree
       and n = 1 and w = recorder and status = 200 and name = "''hello''"
       and binding = "BString ''gophers''" and htmlOpt = "[]"] nodev
  have e2: "Render_HTML 1 (CHR ''/'') basic_tree plain_renderer recorder 200 ''hello''
         (BString ''gophers'') []
       = Render_HTML 1 (CHR ''/'') edited_tree plain_renderer recorder 200 ''hello''
         (BString ''gophers'') []"
    by blast
  from dev nodev c1 c2 c3 e1 e2 show ?thesis by simp
qed

section \<open>Options given with the call\<close>



section \<open>The stand-ins when there is no layout\<close>




end
